theory Spec2Isabelle
  imports Main "HOL-Library.Sublist" "HOL-Library.Code_Target_Numeral"
begin

section \<open>The platform the two modules run on\<close>

text \<open>
  The library is two TypeScript modules, \<open>ImageModule\<close> and \<open>ContainerModule\<close>. Every
  exported function builds a \<open>URL\<close>, appends query parameters to its \<open>searchParams\<close>,
  and hands the serialised URL to the HTTP client \<open>axios\<close>, whose promise it maps with
  one \<open>then\<close> and one \<open>catch\<close> handler.

  Conventions of the embedding:
  \<^item> a JavaScript string is the list of the bytes of its UTF-8 encoding (Isabelle's
    \<open>char\<close> is one byte); a \<open>Buffer\<close> is the list of its bytes;
  \<^item> an optional parameter \<open>p?: T\<close> is a \<open>T option\<close>, \<open>None\<close> being \<open>undefined\<close>;
  \<^item> a \<open>number\<close> is an integer (the arguments are byte counts, microseconds, line
    counts and UNIX timestamps), standing for the double nearest to it; fractions and
    \<open>NaN\<close> are outside the embedding;
  \<^item> an object used as a map is the list of its properties in enumeration order.
\<close>

type_synonym Buffer = "char list"

subsection \<open>\<open>toString\<close> of booleans and numbers\<close>

definition toString_b :: "bool \<Rightarrow> string" where
  "toString_b b = (if b then ''true'' else ''false'')"

definition digit :: "nat \<Rightarrow> char" where
  "digit n = ''0123456789'' ! n"

fun decimal :: "nat \<Rightarrow> string" where
  "decimal n = (if n < 10 then [digit n] else decimal (n div 10) @ [digit (n mod 10)])"

declare decimal.simps [simp del]

text \<open>
  \<open>Number.prototype.toString\<close>. A safe integer (at most \<open>2^53 - 1\<close> in magnitude) prints
  in plain decimal. Beyond, the number is the double nearest to the integer, ties to the
  even significand (\<open>Number_value\<close>; \<open>None\<close> is \<open>Infinity\<close>), and it prints with the fewest
  significant digits \<open>s\<close> such that \<open>s * 10^p\<close> reads back as the same double, the nearest
  such value if there are two (\<open>shortest\<close>): the digits and \<open>p\<close> zeros when that makes at
  most 21 digits, exponent notation otherwise.
\<close>

definition safe_integer :: "int \<Rightarrow> bool" where
  "safe_integer n = (\<bar>n\<bar> \<le> 9007199254740991)"

fun bitlen :: "nat \<Rightarrow> nat" where
  "bitlen n = (if n = 0 then 0 else Suc (bitlen (n div 2)))"

declare bitlen.simps [simp del]

definition Number_value :: "nat \<Rightarrow> nat option" where
  "Number_value v =
     (if bitlen v \<le> 53 then Some v
      else
        (let j = bitlen v - 53; m = v div 2 ^ j; r = v mod 2 ^ j; h = 2 ^ (j - 1);
             x = (if h < r \<or> (r = h \<and> odd m) then m + 1 else m) * 2 ^ j
         in if x < 2 ^ 1024 then Some x else None))"

fun shortest :: "nat \<Rightarrow> nat \<Rightarrow> nat \<times> nat" where
  "shortest x 0 = (x, 0)"
| "shortest x (Suc q) =
     (let c1 = (x div 10 ^ Suc q) * 10 ^ Suc q; c2 = c1 + 10 ^ Suc q;
          ok1 = (c1 \<noteq> 0 \<and> Number_value c1 = Some x); ok2 = (Number_value c2 = Some x);
          s1 = c1 div 10 ^ Suc q; s2 = c2 div 10 ^ Suc q
      in if ok1 \<and> ok2
           then (if x - c1 < c2 - x then (s1, Suc q)
                 else if c2 - x < x - c1 then (s2, Suc q)
                 else if even s1 then (s1, Suc q) else (s2, Suc q))
         else if ok1 then (s1, Suc q)
         else if ok2 then (s2, Suc q)
         else shortest x q)"

definition toString_double :: "nat \<Rightarrow> string" where
  "toString_double x =
     (let (s, p) = shortest x (length (decimal x)); ds = decimal s; k = length ds
      in if k + p \<le> 21 then ds @ replicate p (CHR ''0'')
         else take 1 ds @ (if k = 1 then [] else ''.'' @ drop 1 ds) @ ''e+''
              @ decimal (k + p - 1))"

definition toString_n :: "int \<Rightarrow> string" where
  "toString_n n =
     (if n < 0 then ''-'' else []) @
     (if safe_integer n then decimal (nat \<bar>n\<bar>)
      else (case Number_value (nat \<bar>n\<bar>) of
              None \<Rightarrow> ''Infinity''
            | Some x \<Rightarrow> toString_double x))"

subsection \<open>\<open>JSON.stringify\<close> on the argument shapes of the library\<close>

definition hex_lower :: "nat \<Rightarrow> char" where
  "hex_lower n = ''0123456789abcdef'' ! n"

text \<open>QuoteJSONString: the two-character escapes, \<open>\u00xx\<close> for the other control
  characters, every other byte unchanged.\<close>

definition json_escape :: "char \<Rightarrow> string" where
  "json_escape c =
     (if c = CHR 0x08 then [CHR 0x5C, CHR ''b'']
      else if c = CHR 0x09 then [CHR 0x5C, CHR ''t'']
      else if c = CHR 0x0A then [CHR 0x5C, CHR ''n'']
      else if c = CHR 0x0C then [CHR 0x5C, CHR ''f'']
      else if c = CHR 0x0D then [CHR 0x5C, CHR ''r'']
      else if c = CHR 0x22 then [CHR 0x5C, CHR 0x22]
      else if c = CHR 0x5C then [CHR 0x5C, CHR 0x5C]
      else if (of_char c :: nat) < 0x20
        then [CHR 0x5C, CHR ''u'', CHR ''0'', CHR ''0'',
              hex_lower (of_char c div 16), hex_lower (of_char c mod 16)]
      else [c])"

definition stringify_string :: "string \<Rightarrow> string" where
  "stringify_string s = [CHR 0x22] @ concat (map json_escape s) @ [CHR 0x22]"

fun join :: "string \<Rightarrow> string list \<Rightarrow> string" where
  "join sep [] = []"
| "join sep [x] = x"
| "join sep (x # y # ys) = x @ sep @ join sep (y # ys)"

definition stringify_array :: "('a \<Rightarrow> string) \<Rightarrow> 'a list \<Rightarrow> string" where
  "stringify_array f xs = ''['' @ join '','' (map f xs) @ '']''"

definition stringify_object :: "('a \<Rightarrow> string) \<Rightarrow> (string \<times> 'a) list \<Rightarrow> string" where
  "stringify_object f kvs =
     ''{'' @ join '','' (map (\<lambda>kv. stringify_string (fst kv) @ '':'' @ f (snd kv)) kvs) @ ''}''"

text \<open>\<open>{ [key: string]: string[] }\<close>, \<open>{ [key: string]: string }\<close> and \<open>string[]\<close>.\<close>

type_synonym filters = "(string \<times> string list) list"
type_synonym string_map = "(string \<times> string) list"

definition stringify_filters :: "filters \<Rightarrow> string" where
  "stringify_filters = stringify_object (stringify_array stringify_string)"

definition stringify_string_map :: "string_map \<Rightarrow> string" where
  "stringify_string_map = stringify_object stringify_string"

definition stringify_strings :: "string list \<Rightarrow> string" where
  "stringify_strings = stringify_array stringify_string"

text \<open>\<open>{ [registry: string]: { username: string, password: string } }\<close>: the inner
  objects are string maps too.\<close>

type_synonym registryConfig = "(string \<times> string_map) list"

definition stringify_registryConfig :: "registryConfig \<Rightarrow> string" where
  "stringify_registryConfig = stringify_object stringify_string_map"

subsection \<open>\<open>URL\<close> and \<open>URLSearchParams\<close>\<close>

definition hex_upper :: "nat \<Rightarrow> char" where
  "hex_upper n = ''0123456789ABCDEF'' ! n"

text \<open>The application/x-www-form-urlencoded byte serialiser: a space becomes \<open>+\<close>,
  the bytes \<open>* - . _\<close>, digits and ASCII letters stay, every other byte is
  percent-encoded with upper-case hex digits.\<close>

definition urlencoded_safe :: "char \<Rightarrow> bool" where
  "urlencoded_safe c = (let n = (of_char c :: nat) in
     n = 0x2A \<or> n = 0x2D \<or> n = 0x2E \<or> n = 0x5F \<or>
     (0x30 \<le> n \<and> n \<le> 0x39) \<or> (0x41 \<le> n \<and> n \<le> 0x5A) \<or> (0x61 \<le> n \<and> n \<le> 0x7A))"

definition urlencoded_byte :: "char \<Rightarrow> string" where
  "urlencoded_byte c =
     (if c = CHR 0x20 then ''+''
      else if urlencoded_safe c then [c]
      else [CHR ''%'', hex_upper (of_char c div 16), hex_upper (of_char c mod 16)])"

definition urlencoded_string :: "string \<Rightarrow> string" where
  "urlencoded_string s = concat (map urlencoded_byte s)"

definition urlencoded_serialize :: "(string \<times> string) list \<Rightarrow> string" where
  "urlencoded_serialize ps =
     join ''&'' (map (\<lambda>p. urlencoded_string (fst p) @ ''='' @ urlencoded_string (snd p)) ps)"

text \<open>
  A parsed URL: \<open>base\<close> is the serialisation of everything before the query (scheme,
  host, port, path), \<open>query\<close> and \<open>fragment\<close> are absent or present, and
  \<open>searchParams\<close> is the list of name-value pairs of the query.
\<close>

record URL =
  base :: string
  query :: "string option"
  searchParams :: "(string \<times> string) list"
  fragment :: "string option"

text \<open>\<open>endpoint.searchParams.append(name, value)\<close>: the pair goes to the end of the
  list, and the URL's query becomes the serialisation of the list.\<close>

definition append :: "string \<Rightarrow> string \<Rightarrow> URL \<Rightarrow> URL" where
  "append name val u =
     (let ps = searchParams u @ [(name, val)]; q = urlencoded_serialize ps
      in u\<lparr>searchParams := ps, query := (if q = [] then None else Some q)\<rparr>)"

text \<open>\<open>endpoint.toString()\<close>: the href.\<close>

definition toString :: "URL \<Rightarrow> string" where
  "toString u =
     base u @ (case query u of None \<Rightarrow> [] | Some q \<Rightarrow> ''?'' @ q)
            @ (case fragment u of None \<Rightarrow> [] | Some f \<Rightarrow> ''#'' @ f)"

subsection \<open>\<open>Buffer\<close>: \<open>toString()\<close> and \<open>toString('base64')\<close>\<close>

text \<open>
  \<open>binary.toString()\<close> decodes the bytes as UTF-8: a well-formed sequence is kept
  (its re-encoding is the same bytes), every ill-formed subsequence becomes U+FFFD, whose
  encoding is \<open>EF BF BD\<close>. The decoder is the standard one: \<open>needed\<close> continuation bytes
  are outstanding, the next one must lie in \<open>[lo, hi]\<close>, \<open>seen\<close> holds the bytes of the
  sequence read so far; a byte that cannot continue a sequence is read again as the start
  of the next one.
\<close>

definition replacement :: string where
  "replacement = [CHR 0xEF, CHR 0xBF, CHR 0xBD]"

fun utf8_decode :: "nat \<Rightarrow> nat \<Rightarrow> nat \<Rightarrow> string \<Rightarrow> Buffer \<Rightarrow> string" where
  "utf8_decode needed lo hi seen [] = (if needed = 0 then [] else replacement)"
| "utf8_decode needed lo hi seen (b # bs) =
     (if needed = 0 then
        (if (of_char b :: nat) \<le> 0x7F then b # utf8_decode 0 0x80 0xBF [] bs
         else if 0xC2 \<le> (of_char b :: nat) \<and> (of_char b :: nat) \<le> 0xDF
           then utf8_decode 1 0x80 0xBF [b] bs
         else if 0xE0 \<le> (of_char b :: nat) \<and> (of_char b :: nat) \<le> 0xEF
           then utf8_decode 2 (if b = CHR 0xE0 then 0xA0 else 0x80)
                              (if b = CHR 0xED then 0x9F else 0xBF) [b] bs
         else if 0xF0 \<le> (of_char b :: nat) \<and> (of_char b :: nat) \<le> 0xF4
           then utf8_decode 3 (if b = CHR 0xF0 then 0x90 else 0x80)
                              (if b = CHR 0xF4 then 0x8F else 0xBF) [b] bs
         else replacement @ utf8_decode 0 0x80 0xBF [] bs)
      else if (of_char b :: nat) < lo \<or> hi < (of_char b :: nat)
        then replacement @ utf8_decode 0 0x80 0xBF [] (b # bs)
      else if needed = 1 then seen @ [b] @ utf8_decode 0 0x80 0xBF [] bs
      else utf8_decode (needed - 1) 0x80 0xBF (seen @ [b]) bs)"

definition Buffer_toString :: "Buffer \<Rightarrow> string" where
  "Buffer_toString b = utf8_decode 0 0x80 0xBF [] b"

definition base64_char :: "nat \<Rightarrow> char" where
  "base64_char n = ''ABCDEFGHIJKLMNOPQRSTUVWXYZabcdefghijklmnopqrstuvwxyz0123456789+/'' ! n"

fun base64 :: "Buffer \<Rightarrow> string" where
  "base64 (a # b # c # r) =
     (let n = (of_char a :: nat) * 65536 + of_char b * 256 + of_char c
      in [base64_char (n div 262144), base64_char (n div 4096 mod 64),
          base64_char (n div 64 mod 64), base64_char (n mod 64)] @ base64 r)"
| "base64 [a, b] =
     (let n = (of_char a :: nat) * 1024 + of_char b * 4
      in [base64_char (n div 4096), base64_char (n div 64 mod 64), base64_char (n mod 64),
          CHR ''=''])"
| "base64 [a] =
     (let n = (of_char a :: nat) * 16
      in [base64_char (n div 64), base64_char (n mod 64), CHR ''='', CHR ''=''])"
| "base64 [] = []"

subsection \<open>Requests, responses and the HTTP client\<close>

datatype verb = GET | POST

text \<open>The \<open>data\<close> argument of \<open>axios.post\<close>: absent, a \<open>Buffer\<close>, a string, or an object
  that axios serialises as JSON.\<close>

datatype 'o body = NoBody | BufferBody Buffer | StringBody string | ObjectBody 'o

datatype header = HeaderString string | HeaderNumber nat | HeaderUndefined

datatype responseType = DefaultType | StreamType

record 'o request =
  req_method :: verb
  req_url :: string
  req_body :: "'o body"
  req_headers :: "(string \<times> header) list"
  req_responseType :: responseType

text \<open>
  The JavaScript values an operation can throw, resolve to or reject with. A response
  body \<open>b\<close> reaches the caller decoded (\<open>Data b\<close>: the parsed object, for a JSON body) or
  as an unread stream over its bytes (\<open>Stream b\<close>).
\<close>

datatype 'b val = Undefined | Data 'b | Stream 'b | Error string | TypeError string

datatype 'b outcome = Thrown "'b val" | Resolved "'b val" | Rejected "'b val"

text \<open>What the network and the daemon do with a request: no response at all (connection
  refused, DNS failure, timeout), or a response with a status and a body.\<close>

datatype 'b exchange = NoResponse string | HttpResponse nat 'b

record 'b response =
  status :: nat
  data :: "'b val"

record 'b AxiosError =
  code :: "string option"
  response :: "'b response option"

datatype 'b promise = Fulfilled "'b response" | Failed "'b AxiosError"

text \<open>
  The HTTP client, with its default \<open>validateStatus\<close>: the promise is fulfilled with the
  response on a 2xx status and rejected with an error that carries the response on any
  other status (its code is \<open>ERR_BAD_REQUEST\<close> for 4xx, \<open>ERR_BAD_RESPONSE\<close> for 5xx); when
  there is no response the error carries none, and the code of the transport failure. With
  \<open>responseType: 'stream'\<close> the response's \<open>data\<close> is the stream, whatever the status.
\<close>

definition axios :: "('o request \<Rightarrow> 'b exchange) \<Rightarrow> 'o request \<Rightarrow> 'b promise" where
  "axios net req =
     (case net req of
        NoResponse c \<Rightarrow> Failed \<lparr>code = Some c, response = None\<rparr>
      | HttpResponse st b \<Rightarrow>
          (let r = \<lparr>status = st,
                    data = (case req_responseType req of
                              DefaultType \<Rightarrow> Data b | StreamType \<Rightarrow> Stream b)\<rparr>
           in if 200 \<le> st \<and> st < 300 then Fulfilled r
              else Failed \<lparr>code = (if st div 100 = 4 then Some ''ERR_BAD_REQUEST''
                                    else if st div 100 = 5 then Some ''ERR_BAD_RESPONSE''
                                    else None),
                           response = Some r\<rparr>))"

text \<open>
  The platform: the \<open>URL\<close> constructor (\<open>None\<close> when it throws on an invalid URL),
  \<open>JSON.stringify\<close> on the authentication objects (the types \<open>BasicAuth\<close> and
  \<open>TokenAuth\<close> are declared outside the files at hand), and the network.
\<close>

record ('a, 'o, 'b) platform =
  URL_new :: "string \<Rightarrow> URL option"
  stringify_auth :: "'a \<Rightarrow> string"
  network :: "'o request \<Rightarrow> 'b exchange"

text \<open>A run of an operation: the requests it handed to the client, and how it ended.\<close>

type_synonym ('o, 'b) run = "'o request list \<times> 'b outcome"

definition issued :: "('o, 'b) run \<Rightarrow> 'o request list" where
  "issued r = fst r"

definition outcome :: "('o, 'b) run \<Rightarrow> 'b outcome" where
  "outcome r = snd r"

text \<open>The handlers: \<open>x => x.data\<close>, \<open>x => undefined\<close> and
  \<open>x => { throw x.response.data }\<close>, where reading \<open>data\<close> of an absent \<open>response\<close> is
  itself a \<open>TypeError\<close>.\<close>

definition then_data :: "'b response \<Rightarrow> 'b val" where
  "then_data x = data x"

definition then_undefined :: "'b response \<Rightarrow> 'b val" where
  "then_undefined x = Undefined"

definition catch_throw :: "'b AxiosError \<Rightarrow> 'b val" where
  "catch_throw x =
     (case response x of
        None \<Rightarrow> TypeError ''Cannot read properties of undefined''
      | Some r \<Rightarrow> data r)"

definition settle :: "('b response \<Rightarrow> 'b val) \<Rightarrow> 'b promise \<Rightarrow> 'b outcome" where
  "settle f p = (case p of Fulfilled x \<Rightarrow> Resolved (f x) | Failed x \<Rightarrow> Rejected (catch_throw x))"

definition call ::
  "('a, 'o, 'b) platform \<Rightarrow> 'o request \<Rightarrow> ('b response \<Rightarrow> 'b val) \<Rightarrow> ('o, 'b) run" where
  "call P req f = ([req], settle f (axios (network P) req))"

definition invalid_url :: "('o, 'b) run" where
  "invalid_url = ([], Thrown (TypeError ''Invalid URL''))"

text \<open>\<open>axios.get(u)\<close>, \<open>axios.get(u, { responseType: 'stream' })\<close>, \<open>axios.post(u)\<close> and
  \<open>axios.post(u, data, { headers })\<close>.\<close>

definition get :: "string \<Rightarrow> 'o request" where
  "get u = \<lparr>req_method = GET, req_url = u, req_body = NoBody, req_headers = [],
            req_responseType = DefaultType\<rparr>"

definition get_stream :: "string \<Rightarrow> 'o request" where
  "get_stream u = \<lparr>req_method = GET, req_url = u, req_body = NoBody, req_headers = [],
                   req_responseType = StreamType\<rparr>"

definition post :: "string \<Rightarrow> 'o body \<Rightarrow> (string \<times> header) list \<Rightarrow> 'o request" where
  "post u d hs = \<lparr>req_method = POST, req_url = u, req_body = d, req_headers = hs,
                  req_responseType = DefaultType\<rparr>"

subsection \<open>The statements that build a query\<close>

text \<open>
  The conditional appends of the source, one definition per argument type:
  \<^item> \<open>if (all) endpoint.searchParams.append('all', all.toString())\<close> on a boolean,
  \<^item> \<open>if (limit) endpoint.searchParams.append('limit', limit.toString())\<close> on a number,
  \<^item> \<open>if (tag) endpoint.searchParams.append('tag', tag)\<close> on a string,
  \<^item> \<open>if (filters) endpoint.searchParams.append('filters', JSON.stringify(filters))\<close>
    on an object or array (every object is truthy),
  \<^item> \<open>if (tags) tags.forEach(x => endpoint.searchParams.append('t', x))\<close>.
  The test is JavaScript's truthiness: \<open>undefined\<close>, \<open>false\<close>, \<open>0\<close> and \<open>""\<close> fail it.
\<close>

definition append_bool :: "string \<Rightarrow> bool option \<Rightarrow> URL \<Rightarrow> URL" where
  "append_bool key arg u =
     (case arg of None \<Rightarrow> u | Some b \<Rightarrow> if b then append key (toString_b b) u else u)"

definition append_number :: "string \<Rightarrow> int option \<Rightarrow> URL \<Rightarrow> URL" where
  "append_number key arg u =
     (case arg of None \<Rightarrow> u | Some n \<Rightarrow> if n \<noteq> 0 then append key (toString_n n) u else u)"

definition append_string :: "string \<Rightarrow> string option \<Rightarrow> URL \<Rightarrow> URL" where
  "append_string key arg u =
     (case arg of None \<Rightarrow> u | Some s \<Rightarrow> if s \<noteq> [] then append key s u else u)"

definition append_json :: "('x \<Rightarrow> string) \<Rightarrow> string \<Rightarrow> 'x option \<Rightarrow> URL \<Rightarrow> URL" where
  "append_json stringify key arg u =
     (case arg of None \<Rightarrow> u | Some x \<Rightarrow> append key (stringify x) u)"

definition append_each :: "string \<Rightarrow> string list option \<Rightarrow> URL \<Rightarrow> URL" where
  "append_each key arg u =
     (case arg of None \<Rightarrow> u | Some xs \<Rightarrow> fold (\<lambda>x. append key x) xs u)"

text \<open>Statements run in program order.\<close>

definition statements :: "(URL \<Rightarrow> URL) list \<Rightarrow> URL \<Rightarrow> URL" where
  "statements ss e = fold (\<lambda>s. s) ss e"

section \<open>ImageModule\<close>

text \<open>
  Each function is split as the source is: the statements between \<open>new URL\<close> and the
  call of axios build the endpoint from the parsed URL; the function itself parses,
  builds, issues the request and maps the promise. The parameters \<open>id\<close> and \<open>size\<close> of the
  source are written \<open>id'\<close> and \<open>size'\<close>.
\<close>

definition ImageModule_list_endpoint ::
  "URL \<Rightarrow> bool option \<Rightarrow> filters option \<Rightarrow> bool option \<Rightarrow> bool option \<Rightarrow> URL" where
  "ImageModule_list_endpoint e all filters sharedSize digests =
     statements
       [append_bool ''all'' all,
        append_json stringify_filters ''filters'' filters,
        append_bool ''sharedSize'' sharedSize,
        append_bool ''digests'' digests] e"

definition ImageModule_list ::
  "('a, 'o, 'b) platform \<Rightarrow> string \<Rightarrow> bool option \<Rightarrow> filters option \<Rightarrow> bool option \<Rightarrow>
   bool option \<Rightarrow> ('o, 'b) run" where
  "ImageModule_list P url all filters sharedSize digests =
     (case URL_new P (url @ ''/images/json'') of
        None \<Rightarrow> invalid_url
      | Some e \<Rightarrow>
          call P (get (toString (ImageModule_list_endpoint e all filters sharedSize digests)))
            then_data)"

definition ImageModule_build_endpoint ::
  "URL \<Rightarrow> string option \<Rightarrow> string list option \<Rightarrow> string option \<Rightarrow> string option \<Rightarrow>
   bool option \<Rightarrow> bool option \<Rightarrow> string option \<Rightarrow> string option \<Rightarrow> bool option \<Rightarrow>
   bool option \<Rightarrow> int option \<Rightarrow> int option \<Rightarrow> int option \<Rightarrow> string option \<Rightarrow> int option \<Rightarrow>
   int option \<Rightarrow> string_map option \<Rightarrow> int option \<Rightarrow> bool option \<Rightarrow> string_map option \<Rightarrow>
   string option \<Rightarrow> string option \<Rightarrow> string option \<Rightarrow> string option \<Rightarrow> URL" where
  "ImageModule_build_endpoint e dockerfile tags extraHosts remote quiet noCache cacheFrom pull
     removeIntermediate forceRemoveIntermediate memoryLimit memorySwap cpuShares cpuSetCpus
     cpuPeriod cpuQuota buildArgs shmSize squash labels networkMode platform target outputs =
     statements
       [append_string ''dockerfile'' dockerfile,
        append_each ''t'' tags,
        append_string ''extrahosts'' extraHosts,
        append_string ''remote'' remote,
        append_bool ''q'' quiet,
        append_bool ''nocache'' noCache,
        append_string ''cachefrom'' cacheFrom,
        append_string ''pull'' pull,
        append_bool ''rm'' removeIntermediate,
        append_bool ''forcerm'' forceRemoveIntermediate,
        append_number ''memory'' memoryLimit,
        append_number ''memswap'' memorySwap,
        append_number ''cpushares'' cpuShares,
        append_string ''cpusetcpus'' cpuSetCpus,
        append_number ''cpuperiod'' cpuPeriod,
        append_number ''cpuquota'' cpuQuota,
        append_json stringify_string_map ''buildargs'' buildArgs,
        append_number ''shmsize'' shmSize,
        append_bool ''squash'' squash,
        append_json stringify_string_map ''labels'' labels,
        append_string ''networkmode'' networkMode,
        append_string ''platform'' platform,
        append_string ''target'' target,
        append_string ''outputs'' outputs] e"

text \<open>The headers of \<open>build\<close>: \<open>contentType ?? 'application/x-tar'\<close>,
  \<open>binary.byteLength\<close>, and the registry configuration as base64 of its JSON text.\<close>

definition ImageModule_build_headers ::
  "Buffer \<Rightarrow> string option \<Rightarrow> registryConfig option \<Rightarrow> (string \<times> header) list" where
  "ImageModule_build_headers binary contentType registryConfig =
     [(''Content-Type'',
         HeaderString (case contentType of None \<Rightarrow> ''application/x-tar'' | Some c \<Rightarrow> c)),
      (''Content-Length'', HeaderNumber (length binary)),
      (''X-Registry-Config'',
         (case registryConfig of
            None \<Rightarrow> HeaderUndefined
          | Some rc \<Rightarrow> HeaderString (base64 (stringify_registryConfig rc))))]"

definition ImageModule_build ::
  "('a, 'o, 'b) platform \<Rightarrow> string \<Rightarrow> Buffer \<Rightarrow> string option \<Rightarrow> registryConfig option \<Rightarrow>
   string option \<Rightarrow> string list option \<Rightarrow> string option \<Rightarrow> string option \<Rightarrow>
   bool option \<Rightarrow> bool option \<Rightarrow> string option \<Rightarrow> string option \<Rightarrow> bool option \<Rightarrow>
   bool option \<Rightarrow> int option \<Rightarrow> int option \<Rightarrow> int option \<Rightarrow> string option \<Rightarrow> int option \<Rightarrow>
   int option \<Rightarrow> string_map option \<Rightarrow> int option \<Rightarrow> bool option \<Rightarrow> string_map option \<Rightarrow>
   string option \<Rightarrow> string option \<Rightarrow> string option \<Rightarrow> string option \<Rightarrow> ('o, 'b) run" where
  "ImageModule_build P url binary contentType registryConfig dockerfile tags extraHosts remote
     quiet noCache cacheFrom pull removeIntermediate forceRemoveIntermediate memoryLimit
     memorySwap cpuShares cpuSetCpus cpuPeriod cpuQuota buildArgs shmSize squash labels
     networkMode platform target outputs =
     (case URL_new P (url @ ''/build'') of
        None \<Rightarrow> invalid_url
      | Some e \<Rightarrow>
          call P
            (post
               (toString
                  (ImageModule_build_endpoint e dockerfile tags extraHosts remote quiet noCache
                     cacheFrom pull removeIntermediate forceRemoveIntermediate memoryLimit
                     memorySwap cpuShares cpuSetCpus cpuPeriod cpuQuota buildArgs shmSize squash
                     labels networkMode platform target outputs))
               (StringBody (Buffer_toString binary))
               (ImageModule_build_headers binary contentType registryConfig))
            then_data)"

definition ImageModule_buildPrune_endpoint ::
  "URL \<Rightarrow> int option \<Rightarrow> bool option \<Rightarrow> filters option \<Rightarrow> URL" where
  "ImageModule_buildPrune_endpoint e keepStorage all filters =
     statements
       [append_number ''keep-storage'' keepStorage,
        append_bool ''all'' all,
        append_json stringify_filters ''filters'' filters] e"

definition ImageModule_buildPrune ::
  "('a, 'o, 'b) platform \<Rightarrow> string \<Rightarrow> int option \<Rightarrow> bool option \<Rightarrow> filters option \<Rightarrow>
   ('o, 'b) run" where
  "ImageModule_buildPrune P url keepStorage all filters =
     (case URL_new P (url @ ''/build/prune'') of
        None \<Rightarrow> invalid_url
      | Some e \<Rightarrow>
          call P (post (toString (ImageModule_buildPrune_endpoint e keepStorage all filters))
                    NoBody [])
            then_data)"

text \<open>\<open>create\<close>: the check of the create mode comes after \<open>new URL\<close> and before the
  first append; \<open>fromSrc\<close> is always appended, as \<open>fromSrc ?? '-'\<close>.\<close>

definition ImageModule_create_endpoint ::
  "URL \<Rightarrow> string option \<Rightarrow> string option \<Rightarrow> string option \<Rightarrow> string option \<Rightarrow>
   string option \<Rightarrow> string list option \<Rightarrow> string option \<Rightarrow> URL" where
  "ImageModule_create_endpoint e fromImage fromSrc repo tag message changes platform =
     statements
       [append ''fromSrc'' (case fromSrc of None \<Rightarrow> ''-'' | Some s \<Rightarrow> s),
        append_string ''fromImage'' fromImage,
        append_string ''repo'' repo,
        append_string ''tag'' tag,
        append_string ''message'' message,
        append_json stringify_strings ''changes'' changes,
        append_string ''platform'' platform] e"

definition ImageModule_create ::
  "('a, 'o, 'b) platform \<Rightarrow> string \<Rightarrow> Buffer option \<Rightarrow> 'a option \<Rightarrow> string option \<Rightarrow>
   string option \<Rightarrow> string option \<Rightarrow> string option \<Rightarrow> string option \<Rightarrow>
   string list option \<Rightarrow> string option \<Rightarrow> ('o, 'b) run" where
  "ImageModule_create P url binary authConfig fromImage fromSrc repo tag message changes
     platform =
     (case URL_new P (url @ ''/images/create'') of
        None \<Rightarrow> invalid_url
      | Some e \<Rightarrow>
          if (binary = None \<and> fromSrc = None) \<or> (binary \<noteq> None \<and> fromSrc \<noteq> None)
          then ([], Thrown (Error ''Create mode is not clear. Use fromSrc or binary''))
          else
            call P
              (post
                 (toString
                    (ImageModule_create_endpoint e fromImage fromSrc repo tag message changes
                       platform))
                 (case binary of None \<Rightarrow> NoBody | Some b \<Rightarrow> BufferBody b)
                 [(''X-Registry-Config'',
                     (case authConfig of
                        None \<Rightarrow> HeaderUndefined
                      | Some a \<Rightarrow> HeaderString (base64 (stringify_auth P a))))])
              then_data)"

definition ImageModule_inspect ::
  "('a, 'o, 'b) platform \<Rightarrow> string \<Rightarrow> string \<Rightarrow> ('o, 'b) run" where
  "ImageModule_inspect P url name =
     (case URL_new P (url @ ''/images/'' @ name @ ''/json'') of
        None \<Rightarrow> invalid_url
      | Some e \<Rightarrow> call P (get (toString e)) then_data)"

section \<open>ContainerModule\<close>

definition ContainerModule_list_endpoint ::
  "URL \<Rightarrow> bool option \<Rightarrow> int option \<Rightarrow> bool option \<Rightarrow> filters option \<Rightarrow> URL" where
  "ContainerModule_list_endpoint e all limit size' filters =
     statements
       [append_bool ''all'' all,
        append_number ''limit'' limit,
        append_bool ''size'' size',
        append_json stringify_filters ''filters'' filters] e"

definition ContainerModule_list ::
  "('a, 'o, 'b) platform \<Rightarrow> string \<Rightarrow> bool option \<Rightarrow> int option \<Rightarrow> bool option \<Rightarrow>
   filters option \<Rightarrow> ('o, 'b) run" where
  "ContainerModule_list P url all limit size' filters =
     (case URL_new P (url @ ''/containers/json'') of
        None \<Rightarrow> invalid_url
      | Some e \<Rightarrow>
          call P (get (toString (ContainerModule_list_endpoint e all limit size' filters)))
            then_data)"

text \<open>\<open>create\<close> and \<open>update\<close> pass the configuration object to axios as it is. The
  interfaces \<open>ContainerConfig\<close>, \<open>HostConfig\<close> and \<open>ContainerUpdate\<close> are compile-time
  types of which the functions read no field: the configuration is a value of an
  arbitrary type \<open>'o\<close>.\<close>

definition ContainerModule_create_endpoint ::
  "URL \<Rightarrow> string option \<Rightarrow> string option \<Rightarrow> URL" where
  "ContainerModule_create_endpoint e name platform =
     statements [append_string ''name'' name, append_string ''platform'' platform] e"

definition ContainerModule_create ::
  "('a, 'o, 'b) platform \<Rightarrow> string \<Rightarrow> 'o \<Rightarrow> string option \<Rightarrow> string option \<Rightarrow> ('o, 'b) run" where
  "ContainerModule_create P url containerConfig name platform =
     (case URL_new P (url @ ''/containers/create'') of
        None \<Rightarrow> invalid_url
      | Some e \<Rightarrow>
          call P (post (toString (ContainerModule_create_endpoint e name platform))
                    (ObjectBody containerConfig) [])
            then_data)"

definition ContainerModule_inspect_endpoint :: "URL \<Rightarrow> bool option \<Rightarrow> URL" where
  "ContainerModule_inspect_endpoint e size' = statements [append_bool ''size'' size'] e"

definition ContainerModule_inspect ::
  "('a, 'o, 'b) platform \<Rightarrow> string \<Rightarrow> string \<Rightarrow> bool option \<Rightarrow> ('o, 'b) run" where
  "ContainerModule_inspect P url id' size' =
     (case URL_new P (url @ ''/containers/'' @ id' @ ''/json'') of
        None \<Rightarrow> invalid_url
      | Some e \<Rightarrow> call P (get (toString (ContainerModule_inspect_endpoint e size'))) then_data)"

definition ContainerModule_top_endpoint :: "URL \<Rightarrow> string option \<Rightarrow> URL" where
  "ContainerModule_top_endpoint e psArgs = statements [append_string ''ps_args'' psArgs] e"

definition ContainerModule_top ::
  "('a, 'o, 'b) platform \<Rightarrow> string \<Rightarrow> string \<Rightarrow> string option \<Rightarrow> ('o, 'b) run" where
  "ContainerModule_top P url id' psArgs =
     (case URL_new P (url @ ''/containers/'' @ id' @ ''/top'') of
        None \<Rightarrow> invalid_url
      | Some e \<Rightarrow> call P (get (toString (ContainerModule_top_endpoint e psArgs))) then_data)"

definition ContainerModule_logs_endpoint ::
  "URL \<Rightarrow> bool option \<Rightarrow> bool option \<Rightarrow> bool option \<Rightarrow> int option \<Rightarrow> int option \<Rightarrow>
   bool option \<Rightarrow> string option \<Rightarrow> URL" where
  "ContainerModule_logs_endpoint e follow stdout stderr since until timestamps tail =
     statements
       [append_bool ''follow'' follow,
        append_bool ''stdout'' stdout,
        append_bool ''stderr'' stderr,
        append_number ''since'' since,
        append_number ''until'' until,
        append_bool ''timestamps'' timestamps,
        append_string ''tail'' tail] e"

definition ContainerModule_logs ::
  "('a, 'o, 'b) platform \<Rightarrow> string \<Rightarrow> string \<Rightarrow> bool option \<Rightarrow> bool option \<Rightarrow> bool option \<Rightarrow>
   int option \<Rightarrow> int option \<Rightarrow> bool option \<Rightarrow> string option \<Rightarrow> ('o, 'b) run" where
  "ContainerModule_logs P url id' follow stdout stderr since until timestamps tail =
     (case URL_new P (url @ ''/containers/'' @ id' @ ''/logs'') of
        None \<Rightarrow> invalid_url
      | Some e \<Rightarrow>
          call P
            (get_stream
               (toString
                  (ContainerModule_logs_endpoint e follow stdout stderr since until timestamps
                     tail)))
            then_data)"

definition ContainerModule_changes ::
  "('a, 'o, 'b) platform \<Rightarrow> string \<Rightarrow> string \<Rightarrow> ('o, 'b) run" where
  "ContainerModule_changes P url id' =
     (case URL_new P (url @ ''/containers/'' @ id' @ ''/changes'') of
        None \<Rightarrow> invalid_url
      | Some e \<Rightarrow> call P (get (toString e)) then_data)"

definition ContainerModule_backup ::
  "('a, 'o, 'b) platform \<Rightarrow> string \<Rightarrow> string \<Rightarrow> ('o, 'b) run" where
  "ContainerModule_backup P url id' =
     (case URL_new P (url @ ''/containers/'' @ id' @ ''/export'') of
        None \<Rightarrow> invalid_url
      | Some e \<Rightarrow> call P (get_stream (toString e)) then_data)"

definition ContainerModule_stats_endpoint :: "URL \<Rightarrow> URL" where
  "ContainerModule_stats_endpoint e =
     statements [append ''stream'' ''false'', append ''one-shot'' ''true''] e"

definition ContainerModule_stats ::
  "('a, 'o, 'b) platform \<Rightarrow> string \<Rightarrow> string \<Rightarrow> ('o, 'b) run" where
  "ContainerModule_stats P url id' =
     (case URL_new P (url @ ''/containers/'' @ id' @ ''/stats'') of
        None \<Rightarrow> invalid_url
      | Some e \<Rightarrow> call P (get (toString (ContainerModule_stats_endpoint e))) then_data)"

definition ContainerModule_start ::
  "('a, 'o, 'b) platform \<Rightarrow> string \<Rightarrow> string \<Rightarrow> ('o, 'b) run" where
  "ContainerModule_start P url id' =
     (case URL_new P (url @ ''/containers/'' @ id' @ ''/start'') of
        None \<Rightarrow> invalid_url
      | Some e \<Rightarrow> call P (post (toString e) NoBody []) then_undefined)"

definition ContainerModule_stop_endpoint :: "URL \<Rightarrow> int option \<Rightarrow> URL" where
  "ContainerModule_stop_endpoint e timeout = statements [append_number ''t'' timeout] e"

definition ContainerModule_stop ::
  "('a, 'o, 'b) platform \<Rightarrow> string \<Rightarrow> string \<Rightarrow> int option \<Rightarrow> ('o, 'b) run" where
  "ContainerModule_stop P url id' timeout =
     (case URL_new P (url @ ''/containers/'' @ id' @ ''/stop'') of
        None \<Rightarrow> invalid_url
      | Some e \<Rightarrow>
          call P (post (toString (ContainerModule_stop_endpoint e timeout)) NoBody [])
            then_undefined)"

definition ContainerModule_restart_endpoint :: "URL \<Rightarrow> int option \<Rightarrow> URL" where
  "ContainerModule_restart_endpoint e timeout = statements [append_number ''t'' timeout] e"

definition ContainerModule_restart ::
  "('a, 'o, 'b) platform \<Rightarrow> string \<Rightarrow> string \<Rightarrow> int option \<Rightarrow> ('o, 'b) run" where
  "ContainerModule_restart P url id' timeout =
     (case URL_new P (url @ ''/containers/'' @ id' @ ''/restart'') of
        None \<Rightarrow> invalid_url
      | Some e \<Rightarrow>
          call P (post (toString (ContainerModule_restart_endpoint e timeout)) NoBody [])
            then_undefined)"

definition ContainerModule_kill_endpoint :: "URL \<Rightarrow> string option \<Rightarrow> URL" where
  "ContainerModule_kill_endpoint e signal = statements [append_string ''signal'' signal] e"

definition ContainerModule_kill ::
  "('a, 'o, 'b) platform \<Rightarrow> string \<Rightarrow> string \<Rightarrow> string option \<Rightarrow> ('o, 'b) run" where
  "ContainerModule_kill P url id' signal =
     (case URL_new P (url @ ''/containers/'' @ id' @ ''/kill'') of
        None \<Rightarrow> invalid_url
      | Some e \<Rightarrow>
          call P (post (toString (ContainerModule_kill_endpoint e signal)) NoBody [])
            then_undefined)"

definition ContainerModule_update ::
  "('a, 'o, 'b) platform \<Rightarrow> string \<Rightarrow> string \<Rightarrow> 'o \<Rightarrow> ('o, 'b) run" where
  "ContainerModule_update P url id' config =
     (case URL_new P (url @ ''/containers/'' @ id' @ ''/update'') of
        None \<Rightarrow> invalid_url
      | Some e \<Rightarrow> call P (post (toString e) (ObjectBody config) []) then_data)"

definition ContainerModule_rename_endpoint :: "URL \<Rightarrow> string \<Rightarrow> URL" where
  "ContainerModule_rename_endpoint e name = statements [append ''name'' name] e"

definition ContainerModule_rename ::
  "('a, 'o, 'b) platform \<Rightarrow> string \<Rightarrow> string \<Rightarrow> string \<Rightarrow> ('o, 'b) run" where
  "ContainerModule_rename P url id' name =
     (case URL_new P (url @ ''/containers/'' @ id' @ ''/rename'') of
        None \<Rightarrow> invalid_url
      | Some e \<Rightarrow>
          call P (post (toString (ContainerModule_rename_endpoint e name)) NoBody [])
            then_undefined)"

definition ContainerModule_pause ::
  "('a, 'o, 'b) platform \<Rightarrow> string \<Rightarrow> string \<Rightarrow> ('o, 'b) run" where
  "ContainerModule_pause P url id' =
     (case URL_new P (url @ ''/containers/'' @ id' @ ''/pause'') of
        None \<Rightarrow> invalid_url
      | Some e \<Rightarrow> call P (post (toString e) NoBody []) then_undefined)"

definition ContainerModule_prune :: "('a, 'o, 'b) platform \<Rightarrow> string \<Rightarrow> ('o, 'b) run" where
  "ContainerModule_prune P url =
     (case URL_new P (url @ ''/containers/prune'') of
        None \<Rightarrow> invalid_url
      | Some e \<Rightarrow> call P (post (toString e) NoBody []) then_undefined)"

section \<open>Observations and sample platforms\<close>

text \<open>
  \<open>plain_URL s\<close> is what \<open>new URL(s)\<close> yields for a string \<open>s\<close> that is already in
  serialised form and has neither query nor fragment, such as
  \<open>http://localhost:2375/containers/json\<close>. \<open>getAll\<close> is \<open>searchParams.getAll(name)\<close>:
  the values of the parameters of that name, in order. \<open>success\<close> holds of an exchange
  that ends in a response with a 2xx status.

  Two platforms to evaluate the operations on: \<open>answering st b\<close>, whose daemon answers
  every request with status \<open>st\<close> and body \<open>b\<close>, and \<open>unreachable c\<close>, on which every
  request fails without a response, with error code \<open>c\<close>. Both parse every string as a
  plain URL.
\<close>

definition plain_URL :: "string \<Rightarrow> URL" where
  "plain_URL s = \<lparr>base = s, query = None, searchParams = [], fragment = None\<rparr>"

definition getAll :: "string \<Rightarrow> URL \<Rightarrow> string list" where
  "getAll name u = map snd (filter (\<lambda>p. fst p = name) (searchParams u))"

definition answering :: "nat \<Rightarrow> 'b \<Rightarrow> (unit, 'o, 'b) platform" where
  "answering st b =
     \<lparr>URL_new = (\<lambda>s. Some (plain_URL s)), stringify_auth = (\<lambda>a. ''{}''),
      network = (\<lambda>req. HttpResponse st b)\<rparr>"

definition unreachable :: "string \<Rightarrow> (unit, 'o, 'b) platform" where
  "unreachable c =
     \<lparr>URL_new = (\<lambda>s. Some (plain_URL s)), stringify_auth = (\<lambda>a. ''{}''),
      network = (\<lambda>req. NoResponse c)\<rparr>"

definition success :: "'b exchange \<Rightarrow> bool" where
  "success x = (case x of NoResponse c \<Rightarrow> False | HttpResponse st b \<Rightarrow> 200 \<le> st \<and> st < 300)"

section \<open>Properties\<close>

subsection \<open>Promises\<close>

lemma issued_pair [simp]: "issued (rs, out) = rs"
  by (simp add: issued_def)

lemma outcome_pair [simp]: "outcome (rs, out) = out"
  by (simp add: outcome_def)

lemma call_issued [simp]: "issued (call P req f) = [req]"
  by (simp add: call_def)

lemma call_not_thrown [simp]: "outcome (call P req f) \<noteq> Thrown v"
  by (simp add: call_def settle_def split: promise.split)

lemma call_success:
  assumes "success (network P req)"
  shows "call P req then_undefined = ([req], Resolved Undefined)"
  using assms
  by (auto simp: call_def settle_def axios_def success_def then_undefined_def Let_def
           split: exchange.splits)

lemma invalid_url_issued [simp]: "issued invalid_url = []"
  by (simp add: invalid_url_def)

lemma invalid_url_outcome [simp]: "outcome invalid_url = Thrown (TypeError ''Invalid URL'')"
  by (simp add: invalid_url_def)

subsection \<open>Queries\<close>

lemma statements_Nil [simp]: "statements [] e = e"
  by (simp add: statements_def)

lemma statements_Cons [simp]: "statements (s # ss) e = statements ss (s e)"
  by (simp add: statements_def)

lemma searchParams_append [simp]:
  "searchParams (append name val u) = searchParams u @ [(name, val)]"
  by (simp add: append_def Let_def)

lemma base_append [simp]: "base (append name val u) = base u"
  by (simp add: append_def Let_def)

lemma fragment_append [simp]: "fragment (append name val u) = fragment u"
  by (simp add: append_def Let_def)

lemma getAll_append [simp]:
  "getAll k (append name val u) = getAll k u @ (if name = k then [val] else [])"
  by (simp add: getAll_def)

lemma getAll_append_bool [simp]:
  "getAll k (append_bool name arg u) =
     getAll k u @ (if name = k \<and> arg = Some True then [''true''] else [])"
  by (cases arg) (auto simp: append_bool_def toString_b_def)

lemma getAll_append_number [simp]:
  "getAll k (append_number name arg u) =
     getAll k u @
     (if name = k then (case arg of None \<Rightarrow> [] | Some n \<Rightarrow> if n = 0 then [] else [toString_n n])
      else [])"
  by (cases arg) (auto simp: append_number_def)

lemma getAll_append_string [simp]:
  "getAll k (append_string name arg u) =
     getAll k u @
     (if name = k then (case arg of None \<Rightarrow> [] | Some s \<Rightarrow> if s = [] then [] else [s])
      else [])"
  by (cases arg) (auto simp: append_string_def)

lemma getAll_append_json [simp]:
  "getAll k (append_json f name arg u) =
     getAll k u @
     (if name = k then (case arg of None \<Rightarrow> [] | Some x \<Rightarrow> [f x]) else [])"
  by (cases arg) (auto simp: append_json_def)

lemma getAll_fold_append:
  "getAll k (fold (\<lambda>x. append name x) xs u) = getAll k u @ (if name = k then xs else [])"
  by (induction xs arbitrary: u) auto

lemma getAll_append_each [simp]:
  "getAll k (append_each name arg u) =
     getAll k u @ (if name = k then (case arg of None \<Rightarrow> [] | Some xs \<Rightarrow> xs) else [])"
  by (cases arg) (auto simp: append_each_def getAll_fold_append)

lemma join_append:
  "join sep (xs @ ys) =
     (if xs = [] then join sep ys else if ys = [] then join sep xs
      else join sep xs @ sep @ join sep ys)"
proof (induction sep xs rule: join.induct)
  case (1 sep)
  show ?case by simp
next
  case (2 sep x)
  show ?case by (cases ys) simp_all
next
  case (3 sep x y zs)
  then show ?case by simp
qed

lemma serialize_append:
  "qs \<noteq> [] \<Longrightarrow> \<exists>pre. urlencoded_serialize (ps @ qs) = pre @ urlencoded_serialize qs"
  by (cases "ps = []") (auto simp: urlencoded_serialize_def join_append)

lemma serialize_stats:
  "urlencoded_serialize [(''stream'', ''false''), (''one-shot'', ''true'')]
     = ''stream=false&one-shot=true''"
  by (simp add: urlencoded_serialize_def urlencoded_string_def urlencoded_byte_def
        urlencoded_safe_def)




lemma toString_n_5: "toString_n 5 = ''5''"
  by (simp add: toString_n_def safe_integer_def decimal.simps digit_def)

subsection \<open>Container prune\<close>

text \<open>
  C10. When the daemon answers the request of \<open>ContainerModule.prune\<close> with a 2xx status,
  the operation resolves to \<open>undefined\<close> whatever the body of the response is: the
  \<open>ContainersDeleted\<close> and \<open>SpaceReclaimed\<close> of the daemon never reach the caller.
\<close>

theorem prune_discards_body:
  assumes "URL_new P (url @ ''/containers/prune'') = Some e"
    and "network P (post (toString e) NoBody []) = HttpResponse st b"
    and "200 \<le> st" and "st < 300"
  shows "ContainerModule_prune P url = ([post (toString e) NoBody []], Resolved Undefined)"
proof -
  have "success (network P (post (toString e) NoBody []))"
    using assms by (simp add: success_def)
  then show ?thesis
    using assms(1) by (simp add: ContainerModule_prune_def call_success)
qed

theorem prune_discards_body_witness:
  "ContainerModule_prune
     (answering 200 [(''ContainersDeleted'', ''abc123''), (''SpaceReclaimed'', ''109'')]
        :: (unit, unit, string_map) platform)
     ''http://localhost:2375''
   = ([post ''http://localhost:2375/containers/prune'' NoBody []], Resolved Undefined)"
  using prune_discards_body
    [of "answering 200 [(''ContainersDeleted'', ''abc123''), (''SpaceReclaimed'', ''109'')]
           :: (unit, unit, string_map) platform"
        "''http://localhost:2375''" "plain_URL ''http://localhost:2375/containers/prune''" 200
        "[(''ContainersDeleted'', ''abc123''), (''SpaceReclaimed'', ''109'')]"]
  by (simp add: answering_def plain_URL_def toString_def)

subsection \<open>Container stats\<close>

text \<open>
  C3. Whatever \<open>url\<close> and \<open>id\<close> are, as soon as \<open>ContainerModule.stats\<close> has a URL to build
  on, it issues one GET whose URL has the pairs \<open>stream=false\<close> and \<open>one-shot=true\<close> at the
  end of its parameter list, and the text \<open>stream=false&one-shot=true\<close> in its serialisation.
\<close>

theorem stats_single_snapshot:
  assumes "URL_new P (url @ ''/containers/'' @ id' @ ''/stats'') = Some e"
  shows "issued (ContainerModule_stats P url id')
           = [get (toString (ContainerModule_stats_endpoint e))]
     \<and> searchParams (ContainerModule_stats_endpoint e)
           = searchParams e @ [(''stream'', ''false''), (''one-shot'', ''true'')]
     \<and> sublist ''stream=false&one-shot=true'' (toString (ContainerModule_stats_endpoint e))"
proof -
  obtain pre where pre:
    "urlencoded_serialize (searchParams e @ [(''stream'', ''false''), (''one-shot'', ''true'')])
       = pre @ ''stream=false&one-shot=true''"
    using serialize_append [of "[(''stream'', ''false''), (''one-shot'', ''true'')]" "searchParams e"]
    by (auto simp: serialize_stats)
  have "toString (ContainerModule_stats_endpoint e)
          = (base e @ ''?'' @ pre) @ ''stream=false&one-shot=true''
            @ (case fragment e of None \<Rightarrow> [] | Some f \<Rightarrow> ''#'' @ f)"
    using pre by (simp add: ContainerModule_stats_endpoint_def toString_def append_def Let_def)
  then have "sublist ''stream=false&one-shot=true'' (toString (ContainerModule_stats_endpoint e))"
    unfolding sublist_def by blast
  then show ?thesis
    using assms by (simp add: ContainerModule_stats_def ContainerModule_stats_endpoint_def)
qed

theorem stats_single_snapshot_witness:
  "issued (ContainerModule_stats (answering 200 ''{}'' :: (unit, unit, string) platform)
             ''http://localhost:2375'' ''abc123'')
     = [get ''http://localhost:2375/containers/abc123/stats?stream=false&one-shot=true'']
   \<and> sublist ''stream=false&one-shot=true''
        ''http://localhost:2375/containers/abc123/stats?stream=false&one-shot=true''"
  using stats_single_snapshot
    [of "answering 200 ''{}'' :: (unit, unit, string) platform" "''http://localhost:2375''"
        "''abc123''" "plain_URL ''http://localhost:2375/containers/abc123/stats''"]
  by (simp add: answering_def plain_URL_def toString_def ContainerModule_stats_endpoint_def
        append_def Let_def serialize_stats)

subsection \<open>Image create\<close>

text \<open>
  C1. When both \<open>binary\<close> and \<open>fromSrc\<close> are supplied, or neither is, \<open>ImageModule.create\<close>
  issues no request and throws; for every \<open>url\<close> that \<open>new URL\<close> accepts the error thrown is
  the validation error \<open>Create mode is not clear. Use fromSrc or binary\<close>. When exactly
  one of the two is supplied (and \<open>new URL\<close> accepts \<open>url\<close>), the POST is issued, with
  \<open>binary\<close> as its body, and nothing is thrown.
\<close>

theorem image_create_mode:
  "((binary = None) = (fromSrc = None) \<longrightarrow>
      issued (ImageModule_create P url binary authConfig fromImage fromSrc repo tag message
                changes platform) = []
      \<and> (\<exists>v. outcome (ImageModule_create P url binary authConfig fromImage fromSrc repo tag
                         message changes platform) = Thrown v)
      \<and> (URL_new P (url @ ''/images/create'') \<noteq> None \<longrightarrow>
           outcome (ImageModule_create P url binary authConfig fromImage fromSrc repo tag
                      message changes platform)
             = Thrown (Error ''Create mode is not clear. Use fromSrc or binary'')))
   \<and> ((binary = None) \<noteq> (fromSrc = None) \<and> URL_new P (url @ ''/images/create'') = Some e \<longrightarrow>
      issued (ImageModule_create P url binary authConfig fromImage fromSrc repo tag message
                changes platform)
        = [post (toString (ImageModule_create_endpoint e fromImage fromSrc repo tag message
                             changes platform))
             (case binary of None \<Rightarrow> NoBody | Some b \<Rightarrow> BufferBody b)
             [(''X-Registry-Config'',
                 (case authConfig of
                    None \<Rightarrow> HeaderUndefined
                  | Some a \<Rightarrow> HeaderString (base64 (stringify_auth P a))))]]
      \<and> (\<forall>v. outcome (ImageModule_create P url binary authConfig fromImage fromSrc repo tag
                         message changes platform) \<noteq> Thrown v))"
  by (cases "URL_new P (url @ ''/images/create'')")
     (auto simp: ImageModule_create_def)

theorem image_create_mode_witness:
  "issued (ImageModule_create (answering 200 ''{}'' :: (unit, unit, string) platform)
             ''http://localhost:2375'' None None (Some ''alpine'') None None None None None None)
     = []
   \<and> outcome (ImageModule_create (answering 200 ''{}'' :: (unit, unit, string) platform)
             ''http://localhost:2375'' None None (Some ''alpine'') None None None None None None)
       = Thrown (Error ''Create mode is not clear. Use fromSrc or binary'')
   \<and> issued (ImageModule_create (answering 200 ''{}'' :: (unit, unit, string) platform)
             ''http://localhost:2375'' (Some ''tar'') None None (Some ''-'') None None None None
             None) = []
   \<and> issued (ImageModule_create (answering 200 ''{}'' :: (unit, unit, string) platform)
             ''http://localhost:2375'' (Some ''tar'') None None None None None None None None)
       = [post ''http://localhost:2375/images/create?fromSrc=-'' (BufferBody ''tar'')
            [(''X-Registry-Config'', HeaderUndefined)]]"
  using image_create_mode
      [of None None "answering 200 ''{}'' :: (unit, unit, string) platform"
          "''http://localhost:2375''" None "Some ''alpine''"
          None None None None None "plain_URL ''http://localhost:2375/images/create''"]
    image_create_mode
      [of "Some ''tar''" "Some ''-''" "answering 200 ''{}'' :: (unit, unit, string) platform"
          "''http://localhost:2375''" None None
          None None None None None "plain_URL ''http://localhost:2375/images/create''"]
    image_create_mode
      [of "Some ''tar''" None "answering 200 ''{}'' :: (unit, unit, string) platform"
          "''http://localhost:2375''" None None
          None None None None None "plain_URL ''http://localhost:2375/images/create''"]
  by (simp add: answering_def plain_URL_def toString_def ImageModule_create_endpoint_def
        append_def Let_def append_string_def append_json_def urlencoded_serialize_def
        urlencoded_string_def urlencoded_byte_def urlencoded_safe_def)

subsection \<open>Container create\<close>

text \<open>
  C6. The request of \<open>ContainerModule.create\<close> is a POST whose body is the
  \<open>containerConfig\<close> it was given, the same value, for every configuration, name and
  platform; with no name and no platform the endpoint is the parsed
  \<open>{url}/containers/create\<close> itself.
\<close>

theorem container_create_body:
  assumes "URL_new P (url @ ''/containers/create'') = Some e"
  shows "issued (ContainerModule_create P url containerConfig name platform)
           = [post (toString (ContainerModule_create_endpoint e name platform))
                (ObjectBody containerConfig) []]
         \<and> ContainerModule_create_endpoint e None None = e"
  using assms
  by (simp add: ContainerModule_create_def ContainerModule_create_endpoint_def append_string_def)

theorem container_create_body_witness:
  "issued (ContainerModule_create (answering 201 ''{}'' :: (unit, string_map, string) platform)
             ''http://localhost:2375'' [(''Image'', ''alpine''), (''Tty'', ''false'')] None None)
     = [post ''http://localhost:2375/containers/create''
          (ObjectBody [(''Image'', ''alpine''), (''Tty'', ''false'')]) []]"
  using container_create_body
      [of "answering 201 ''{}'' :: (unit, string_map, string) platform" "''http://localhost:2375''"
          "plain_URL ''http://localhost:2375/containers/create''"
          "[(''Image'', ''alpine''), (''Tty'', ''false'')]" None None]
  by (simp add: answering_def plain_URL_def toString_def)

subsection \<open>The URL of the request\<close>

text \<open>
  The URL of the request an operation issues is the serialisation of its endpoint: what
  the sections below say of an endpoint's parameters holds of the URL that reaches the
  HTTP client.
\<close>

lemma request_url_is_endpoint:
  "(URL_new P (url @ ''/images/json'') = Some e \<longrightarrow>
      map req_url (issued (ImageModule_list P url all filters sharedSize digests))
        = [toString (ImageModule_list_endpoint e all filters sharedSize digests)])
   \<and> (URL_new P (url @ ''/build/prune'') = Some e \<longrightarrow>
      map req_url (issued (ImageModule_buildPrune P url keepStorage all filters))
        = [toString (ImageModule_buildPrune_endpoint e keepStorage all filters)])
   \<and> (URL_new P (url @ ''/images/create'') = Some e \<and> (binary = None) \<noteq> (fromSrc = None) \<longrightarrow>
      map req_url (issued (ImageModule_create P url binary authConfig fromImage fromSrc repo tag
                             message changes platform))
        = [toString (ImageModule_create_endpoint e fromImage fromSrc repo tag message changes
                       platform)])
   \<and> (URL_new P (url @ ''/containers/json'') = Some e \<longrightarrow>
      map req_url (issued (ContainerModule_list P url all limit size' filters))
        = [toString (ContainerModule_list_endpoint e all limit size' filters)])
   \<and> (URL_new P (url @ ''/containers/create'') = Some e \<longrightarrow>
      map req_url (issued (ContainerModule_create P url containerConfig name platform))
        = [toString (ContainerModule_create_endpoint e name platform)])
   \<and> (URL_new P (url @ ''/containers/'' @ id' @ ''/json'') = Some e \<longrightarrow>
      map req_url (issued (ContainerModule_inspect P url id' size'))
        = [toString (ContainerModule_inspect_endpoint e size')])
   \<and> (URL_new P (url @ ''/containers/'' @ id' @ ''/top'') = Some e \<longrightarrow>
      map req_url (issued (ContainerModule_top P url id' psArgs))
        = [toString (ContainerModule_top_endpoint e psArgs)])
   \<and> (URL_new P (url @ ''/containers/'' @ id' @ ''/logs'') = Some e \<longrightarrow>
      map req_url (issued (ContainerModule_logs P url id' follow stdout stderr since until
                             timestamps tail))
        = [toString (ContainerModule_logs_endpoint e follow stdout stderr since until
                       timestamps tail)])
   \<and> (URL_new P (url @ ''/containers/'' @ id' @ ''/stop'') = Some e \<longrightarrow>
      map req_url (issued (ContainerModule_stop P url id' timeout))
        = [toString (ContainerModule_stop_endpoint e timeout)])
   \<and> (URL_new P (url @ ''/containers/'' @ id' @ ''/restart'') = Some e \<longrightarrow>
      map req_url (issued (ContainerModule_restart P url id' timeout))
        = [toString (ContainerModule_restart_endpoint e timeout)])
   \<and> (URL_new P (url @ ''/containers/'' @ id' @ ''/kill'') = Some e \<longrightarrow>
      map req_url (issued (ContainerModule_kill P url id' signal))
        = [toString (ContainerModule_kill_endpoint e signal)])"
  by (auto simp: ImageModule_list_def ImageModule_buildPrune_def ImageModule_create_def
        ContainerModule_list_def ContainerModule_create_def ContainerModule_inspect_def
        ContainerModule_top_def ContainerModule_logs_def ContainerModule_stop_def
        ContainerModule_restart_def ContainerModule_kill_def get_def get_stream_def post_def)

lemma build_request_url_is_endpoint:
  assumes "URL_new P (url @ ''/build'') = Some e"
  shows "map req_url
           (issued (ImageModule_build P url binary contentType registryConfig dockerfile tags
                      extraHosts remote quiet noCache cacheFrom pull removeIntermediate
                      forceRemoveIntermediate memoryLimit memorySwap cpuShares cpuSetCpus
                      cpuPeriod cpuQuota buildArgs shmSize squash labels networkMode platform
                      target outputs))
         = [toString
              (ImageModule_build_endpoint e dockerfile tags extraHosts remote quiet noCache
                 cacheFrom pull removeIntermediate forceRemoveIntermediate memoryLimit
                 memorySwap cpuShares cpuSetCpus cpuPeriod cpuQuota buildArgs shmSize squash
                 labels networkMode platform target outputs)]"
  using assms by (simp add: ImageModule_build_def post_def)

subsection \<open>Optional arguments left unset or falsy\<close>

text \<open>
  C4, as the code has it. For every operation of both modules and every optional
  argument that becomes a query parameter, except \<open>fromSrc\<close> of \<open>ImageModule.create\<close>:
  when the argument is \<open>undefined\<close> or falsy (\<open>false\<close>, \<open>0\<close>, the empty string), the
  built URL has under the argument's key exactly the parameters the parsed URL already
  had; none is added, with or without a value. \<open>ImageModule.create\<close> always appends
  \<open>fromSrc\<close>: \<open>-\<close> when the argument is unset, the argument's own value otherwise.
\<close>

theorem unset_arguments_not_sent:
  "(all = None \<or> all = Some False \<longrightarrow>
       getAll ''all''
         (ImageModule_list_endpoint e all filters sharedSize digests)
         = getAll ''all'' e)
   \<and> (filters = None \<longrightarrow>
       getAll ''filters''
         (ImageModule_list_endpoint e all filters sharedSize digests)
         = getAll ''filters'' e)
   \<and> (sharedSize = None \<or> sharedSize = Some False \<longrightarrow>
       getAll ''sharedSize''
         (ImageModule_list_endpoint e all filters sharedSize digests)
         = getAll ''sharedSize'' e)
   \<and> (digests = None \<or> digests = Some False \<longrightarrow>
       getAll ''digests''
         (ImageModule_list_endpoint e all filters sharedSize digests)
         = getAll ''digests'' e)
   \<and> (dockerfile = None \<or> dockerfile = Some [] \<longrightarrow>
       getAll ''dockerfile''
         (ImageModule_build_endpoint e dockerfile tags extraHosts remote quiet noCache
            cacheFrom pull removeIntermediate forceRemoveIntermediate memoryLimit memorySwap
            cpuShares cpuSetCpus cpuPeriod cpuQuota buildArgs shmSize squash labels networkMode
            platform target outputs)
         = getAll ''dockerfile'' e)
   \<and> (tags = None \<longrightarrow>
       getAll ''t''
         (ImageModule_build_endpoint e dockerfile tags extraHosts remote quiet noCache
            cacheFrom pull removeIntermediate forceRemoveIntermediate memoryLimit memorySwap
            cpuShares cpuSetCpus cpuPeriod cpuQuota buildArgs shmSize squash labels networkMode
            platform target outputs)
         = getAll ''t'' e)
   \<and> (extraHosts = None \<or> extraHosts = Some [] \<longrightarrow>
       getAll ''extrahosts''
         (ImageModule_build_endpoint e dockerfile tags extraHosts remote quiet noCache
            cacheFrom pull removeIntermediate forceRemoveIntermediate memoryLimit memorySwap
            cpuShares cpuSetCpus cpuPeriod cpuQuota buildArgs shmSize squash labels networkMode
            platform target outputs)
         = getAll ''extrahosts'' e)
   \<and> (remote = None \<or> remote = Some [] \<longrightarrow>
       getAll ''remote''
         (ImageModule_build_endpoint e dockerfile tags extraHosts remote quiet noCache
            cacheFrom pull removeIntermediate forceRemoveIntermediate memoryLimit memorySwap
            cpuShares cpuSetCpus cpuPeriod cpuQuota buildArgs shmSize squash labels networkMode
            platform target outputs)
         = getAll ''remote'' e)
   \<and> (quiet = None \<or> quiet = Some False \<longrightarrow>
       getAll ''q''
         (ImageModule_build_endpoint e dockerfile tags extraHosts remote quiet noCache
            cacheFrom pull removeIntermediate forceRemoveIntermediate memoryLimit memorySwap
            cpuShares cpuSetCpus cpuPeriod cpuQuota buildArgs shmSize squash labels networkMode
            platform target outputs)
         = getAll ''q'' e)
   \<and> (noCache = None \<or> noCache = Some False \<longrightarrow>
       getAll ''nocache''
         (ImageModule_build_endpoint e dockerfile tags extraHosts remote quiet noCache
            cacheFrom pull removeIntermediate forceRemoveIntermediate memoryLimit memorySwap
            cpuShares cpuSetCpus cpuPeriod cpuQuota buildArgs shmSize squash labels networkMode
            platform target outputs)
         = getAll ''nocache'' e)
   \<and> (cacheFrom = None \<or> cacheFrom = Some [] \<longrightarrow>
       getAll ''cachefrom''
         (ImageModule_build_endpoint e dockerfile tags extraHosts remote quiet noCache
            cacheFrom pull removeIntermediate forceRemoveIntermediate memoryLimit memorySwap
            cpuShares cpuSetCpus cpuPeriod cpuQuota buildArgs shmSize squash labels networkMode
            platform target outputs)
         = getAll ''cachefrom'' e)
   \<and> (pull = None \<or> pull = Some [] \<longrightarrow>
       getAll ''pull''
         (ImageModule_build_endpoint e dockerfile tags extraHosts remote quiet noCache
            cacheFrom pull removeIntermediate forceRemoveIntermediate memoryLimit memorySwap
            cpuShares cpuSetCpus cpuPeriod cpuQuota buildArgs shmSize squash labels networkMode
            platform target outputs)
         = getAll ''pull'' e)
   \<and> (removeIntermediate = None \<or> removeIntermediate = Some False \<longrightarrow>
       getAll ''rm''
         (ImageModule_build_endpoint e dockerfile tags extraHosts remote quiet noCache
            cacheFrom pull removeIntermediate forceRemoveIntermediate memoryLimit memorySwap
            cpuShares cpuSetCpus cpuPeriod cpuQuota buildArgs shmSize squash labels networkMode
            platform target outputs)
         = getAll ''rm'' e)
   \<and> (forceRemoveIntermediate = None \<or> forceRemoveIntermediate = Some False \<longrightarrow>
       getAll ''forcerm''
         (ImageModule_build_endpoint e dockerfile tags extraHosts remote quiet noCache
            cacheFrom pull removeIntermediate forceRemoveIntermediate memoryLimit memorySwap
            cpuShares cpuSetCpus cpuPeriod cpuQuota buildArgs shmSize squash labels networkMode
            platform target outputs)
         = getAll ''forcerm'' e)
   \<and> (memoryLimit = None \<or> memoryLimit = Some 0 \<longrightarrow>
       getAll ''memory''
         (ImageModule_build_endpoint e dockerfile tags extraHosts remote quiet noCache
            cacheFrom pull removeIntermediate forceRemoveIntermediate memoryLimit memorySwap
            cpuShares cpuSetCpus cpuPeriod cpuQuota buildArgs shmSize squash labels networkMode
            platform target outputs)
         = getAll ''memory'' e)
   \<and> (memorySwap = None \<or> memorySwap = Some 0 \<longrightarrow>
       getAll ''memswap''
         (ImageModule_build_endpoint e dockerfile tags extraHosts remote quiet noCache
            cacheFrom pull removeIntermediate forceRemoveIntermediate memoryLimit memorySwap
            cpuShares cpuSetCpus cpuPeriod cpuQuota buildArgs shmSize squash labels networkMode
            platform target outputs)
         = getAll ''memswap'' e)
   \<and> (cpuShares = None \<or> cpuShares = Some 0 \<longrightarrow>
       getAll ''cpushares''
         (ImageModule_build_endpoint e dockerfile tags extraHosts remote quiet noCache
            cacheFrom pull removeIntermediate forceRemoveIntermediate memoryLimit memorySwap
            cpuShares cpuSetCpus cpuPeriod cpuQuota buildArgs shmSize squash labels networkMode
            platform target outputs)
         = getAll ''cpushares'' e)
   \<and> (cpuSetCpus = None \<or> cpuSetCpus = Some [] \<longrightarrow>
       getAll ''cpusetcpus''
         (ImageModule_build_endpoint e dockerfile tags extraHosts remote quiet noCache
            cacheFrom pull removeIntermediate forceRemoveIntermediate memoryLimit memorySwap
            cpuShares cpuSetCpus cpuPeriod cpuQuota buildArgs shmSize squash labels networkMode
            platform target outputs)
         = getAll ''cpusetcpus'' e)
   \<and> (cpuPeriod = None \<or> cpuPeriod = Some 0 \<longrightarrow>
       getAll ''cpuperiod''
         (ImageModule_build_endpoint e dockerfile tags extraHosts remote quiet noCache
            cacheFrom pull removeIntermediate forceRemoveIntermediate memoryLimit memorySwap
            cpuShares cpuSetCpus cpuPeriod cpuQuota buildArgs shmSize squash labels networkMode
            platform target outputs)
         = getAll ''cpuperiod'' e)
   \<and> (cpuQuota = None \<or> cpuQuota = Some 0 \<longrightarrow>
       getAll ''cpuquota''
         (ImageModule_build_endpoint e dockerfile tags extraHosts remote quiet noCache
            cacheFrom pull removeIntermediate forceRemoveIntermediate memoryLimit memorySwap
            cpuShares cpuSetCpus cpuPeriod cpuQuota buildArgs shmSize squash labels networkMode
            platform target outputs)
         = getAll ''cpuquota'' e)
   \<and> (buildArgs = None \<longrightarrow>
       getAll ''buildargs''
         (ImageModule_build_endpoint e dockerfile tags extraHosts remote quiet noCache
            cacheFrom pull removeIntermediate forceRemoveIntermediate memoryLimit memorySwap
            cpuShares cpuSetCpus cpuPeriod cpuQuota buildArgs shmSize squash labels networkMode
            platform target outputs)
         = getAll ''buildargs'' e)
   \<and> (shmSize = None \<or> shmSize = Some 0 \<longrightarrow>
       getAll ''shmsize''
         (ImageModule_build_endpoint e dockerfile tags extraHosts remote quiet noCache
            cacheFrom pull removeIntermediate forceRemoveIntermediate memoryLimit memorySwap
            cpuShares cpuSetCpus cpuPeriod cpuQuota buildArgs shmSize squash labels networkMode
            platform target outputs)
         = getAll ''shmsize'' e)
   \<and> (squash = None \<or> squash = Some False \<longrightarrow>
       getAll ''squash''
         (ImageModule_build_endpoint e dockerfile tags extraHosts remote quiet noCache
            cacheFrom pull removeIntermediate forceRemoveIntermediate memoryLimit memorySwap
            cpuShares cpuSetCpus cpuPeriod cpuQuota buildArgs shmSize squash labels networkMode
            platform target outputs)
         = getAll ''squash'' e)
   \<and> (labels = None \<longrightarrow>
       getAll ''labels''
         (ImageModule_build_endpoint e dockerfile tags extraHosts remote quiet noCache
            cacheFrom pull removeIntermediate forceRemoveIntermediate memoryLimit memorySwap
            cpuShares cpuSetCpus cpuPeriod cpuQuota buildArgs shmSize squash labels networkMode
            platform target outputs)
         = getAll ''labels'' e)
   \<and> (networkMode = None \<or> networkMode = Some [] \<longrightarrow>
       getAll ''networkmode''
         (ImageModule_build_endpoint e dockerfile tags extraHosts remote quiet noCache
            cacheFrom pull removeIntermediate forceRemoveIntermediate memoryLimit memorySwap
            cpuShares cpuSetCpus cpuPeriod cpuQuota buildArgs shmSize squash labels networkMode
            platform target outputs)
         = getAll ''networkmode'' e)
   \<and> (platform = None \<or> platform = Some [] \<longrightarrow>
       getAll ''platform''
         (ImageModule_build_endpoint e dockerfile tags extraHosts remote quiet noCache
            cacheFrom pull removeIntermediate forceRemoveIntermediate memoryLimit memorySwap
            cpuShares cpuSetCpus cpuPeriod cpuQuota buildArgs shmSize squash labels networkMode
            platform target outputs)
         = getAll ''platform'' e)
   \<and> (target = None \<or> target = Some [] \<longrightarrow>
       getAll ''target''
         (ImageModule_build_endpoint e dockerfile tags extraHosts remote quiet noCache
            cacheFrom pull removeIntermediate forceRemoveIntermediate memoryLimit memorySwap
            cpuShares cpuSetCpus cpuPeriod cpuQuota buildArgs shmSize squash labels networkMode
            platform target outputs)
         = getAll ''target'' e)
   \<and> (outputs = None \<or> outputs = Some [] \<longrightarrow>
       getAll ''outputs''
         (ImageModule_build_endpoint e dockerfile tags extraHosts remote quiet noCache
            cacheFrom pull removeIntermediate forceRemoveIntermediate memoryLimit memorySwap
            cpuShares cpuSetCpus cpuPeriod cpuQuota buildArgs shmSize squash labels networkMode
            platform target outputs)
         = getAll ''outputs'' e)
   \<and> (keepStorage = None \<or> keepStorage = Some 0 \<longrightarrow>
       getAll ''keep-storage''
         (ImageModule_buildPrune_endpoint e keepStorage all filters)
         = getAll ''keep-storage'' e)
   \<and> (all = None \<or> all = Some False \<longrightarrow>
       getAll ''all''
         (ImageModule_buildPrune_endpoint e keepStorage all filters)
         = getAll ''all'' e)
   \<and> (filters = None \<longrightarrow>
       getAll ''filters''
         (ImageModule_buildPrune_endpoint e keepStorage all filters)
         = getAll ''filters'' e)
   \<and> (fromImage = None \<or> fromImage = Some [] \<longrightarrow>
       getAll ''fromImage''
         (ImageModule_create_endpoint e fromImage fromSrc repo tag message changes platform)
         = getAll ''fromImage'' e)
   \<and> (repo = None \<or> repo = Some [] \<longrightarrow>
       getAll ''repo''
         (ImageModule_create_endpoint e fromImage fromSrc repo tag message changes platform)
         = getAll ''repo'' e)
   \<and> (tag = None \<or> tag = Some [] \<longrightarrow>
       getAll ''tag''
         (ImageModule_create_endpoint e fromImage fromSrc repo tag message changes platform)
         = getAll ''tag'' e)
   \<and> (message = None \<or> message = Some [] \<longrightarrow>
       getAll ''message''
         (ImageModule_create_endpoint e fromImage fromSrc repo tag message changes platform)
         = getAll ''message'' e)
   \<and> (changes = None \<longrightarrow>
       getAll ''changes''
         (ImageModule_create_endpoint e fromImage fromSrc repo tag message changes platform)
         = getAll ''changes'' e)
   \<and> (platform = None \<or> platform = Some [] \<longrightarrow>
       getAll ''platform''
         (ImageModule_create_endpoint e fromImage fromSrc repo tag message changes platform)
         = getAll ''platform'' e)
   \<and> (all = None \<or> all = Some False \<longrightarrow>
       getAll ''all''
         (ContainerModule_list_endpoint e all limit size' filters)
         = getAll ''all'' e)
   \<and> (limit = None \<or> limit = Some 0 \<longrightarrow>
       getAll ''limit''
         (ContainerModule_list_endpoint e all limit size' filters)
         = getAll ''limit'' e)
   \<and> (size' = None \<or> size' = Some False \<longrightarrow>
       getAll ''size''
         (ContainerModule_list_endpoint e all limit size' filters)
         = getAll ''size'' e)
   \<and> (filters = None \<longrightarrow>
       getAll ''filters''
         (ContainerModule_list_endpoint e all limit size' filters)
         = getAll ''filters'' e)
   \<and> (name = None \<or> name = Some [] \<longrightarrow>
       getAll ''name''
         (ContainerModule_create_endpoint e name platform)
         = getAll ''name'' e)
   \<and> (platform = None \<or> platform = Some [] \<longrightarrow>
       getAll ''platform''
         (ContainerModule_create_endpoint e name platform)
         = getAll ''platform'' e)
   \<and> (size' = None \<or> size' = Some False \<longrightarrow>
       getAll ''size''
         (ContainerModule_inspect_endpoint e size')
         = getAll ''size'' e)
   \<and> (psArgs = None \<or> psArgs = Some [] \<longrightarrow>
       getAll ''ps_args''
         (ContainerModule_top_endpoint e psArgs)
         = getAll ''ps_args'' e)
   \<and> (follow = None \<or> follow = Some False \<longrightarrow>
       getAll ''follow''
         (ContainerModule_logs_endpoint e follow stdout stderr since until timestamps tail)
         = getAll ''follow'' e)
   \<and> (stdout = None \<or> stdout = Some False \<longrightarrow>
       getAll ''stdout''
         (ContainerModule_logs_endpoint e follow stdout stderr since until timestamps tail)
         = getAll ''stdout'' e)
   \<and> (stderr = None \<or> stderr = Some False \<longrightarrow>
       getAll ''stderr''
         (ContainerModule_logs_endpoint e follow stdout stderr since until timestamps tail)
         = getAll ''stderr'' e)
   \<and> (since = None \<or> since = Some 0 \<longrightarrow>
       getAll ''since''
         (ContainerModule_logs_endpoint e follow stdout stderr since until timestamps tail)
         = getAll ''since'' e)
   \<and> (until = None \<or> until = Some 0 \<longrightarrow>
       getAll ''until''
         (ContainerModule_logs_endpoint e follow stdout stderr since until timestamps tail)
         = getAll ''until'' e)
   \<and> (timestamps = None \<or> timestamps = Some False \<longrightarrow>
       getAll ''timestamps''
         (ContainerModule_logs_endpoint e follow stdout stderr since until timestamps tail)
         = getAll ''timestamps'' e)
   \<and> (tail = None \<or> tail = Some [] \<longrightarrow>
       getAll ''tail''
         (ContainerModule_logs_endpoint e follow stdout stderr since until timestamps tail)
         = getAll ''tail'' e)
   \<and> (timeout = None \<or> timeout = Some 0 \<longrightarrow>
       getAll ''t''
         (ContainerModule_stop_endpoint e timeout)
         = getAll ''t'' e)
   \<and> (timeout = None \<or> timeout = Some 0 \<longrightarrow>
       getAll ''t''
         (ContainerModule_restart_endpoint e timeout)
         = getAll ''t'' e)
   \<and> (signal = None \<or> signal = Some [] \<longrightarrow>
       getAll ''signal''
         (ContainerModule_kill_endpoint e signal)
         = getAll ''signal'' e)
   \<and> (getAll ''fromSrc''
       (ImageModule_create_endpoint e fromImage fromSrc repo tag message changes platform)
         = getAll ''fromSrc'' e @ [case fromSrc of None \<Rightarrow> ''-'' | Some s \<Rightarrow> s])"
  by (simp add: ImageModule_list_endpoint_def ImageModule_build_endpoint_def
      ImageModule_buildPrune_endpoint_def ImageModule_create_endpoint_def
      ContainerModule_list_endpoint_def ContainerModule_create_endpoint_def
      ContainerModule_inspect_endpoint_def ContainerModule_top_endpoint_def
      ContainerModule_logs_endpoint_def ContainerModule_stop_endpoint_def
      ContainerModule_restart_endpoint_def ContainerModule_kill_endpoint_def)

theorem unset_arguments_not_sent_witness:
  "getAll ''sharedSize''
       (ImageModule_list_endpoint (plain_URL ''http://localhost:2375/v1'') (Some False) None
        (Some False) (Some False)) = []
   \<and> getAll ''t''
       (ImageModule_build_endpoint (plain_URL ''http://localhost:2375/v1'') (Some []) None
        (Some []) (Some []) (Some False) (Some False) (Some []) (Some []) (Some False)
        (Some False) (Some 0) (Some 0) (Some 0) (Some []) (Some 0) (Some 0) None (Some 0)
        (Some False) None (Some []) (Some []) (Some []) (Some [])) = []
   \<and> getAll ''buildargs''
       (ImageModule_build_endpoint (plain_URL ''http://localhost:2375/v1'') (Some []) None
        (Some []) (Some []) (Some False) (Some False) (Some []) (Some []) (Some False)
        (Some False) (Some 0) (Some 0) (Some 0) (Some []) (Some 0) (Some 0) None (Some 0)
        (Some False) None (Some []) (Some []) (Some []) (Some [])) = []
   \<and> getAll ''keep-storage''
       (ImageModule_buildPrune_endpoint (plain_URL ''http://localhost:2375/v1'') (Some 0)
        (Some False) None) = []
   \<and> getAll ''changes''
       (ImageModule_create_endpoint (plain_URL ''http://localhost:2375/v1'') (Some []) None
        (Some []) (Some []) (Some []) None (Some [])) = []
   \<and> getAll ''all''
       (ContainerModule_list_endpoint (plain_URL ''http://localhost:2375/v1'') (Some False)
        (Some 0) (Some False) None) = []
   \<and> getAll ''limit''
       (ContainerModule_list_endpoint (plain_URL ''http://localhost:2375/v1'') (Some False)
        (Some 0) (Some False) None) = []
   \<and> getAll ''size''
       (ContainerModule_list_endpoint (plain_URL ''http://localhost:2375/v1'') (Some False)
        (Some 0) (Some False) None) = []
   \<and> getAll ''filters''
       (ContainerModule_list_endpoint (plain_URL ''http://localhost:2375/v1'') (Some False)
        (Some 0) (Some False) None) = []
   \<and> getAll ''tail''
       (ContainerModule_logs_endpoint (plain_URL ''http://localhost:2375/v1'') (Some False)
        (Some False) (Some False) (Some 0) (Some 0) (Some False) (Some [])) = []
   \<and> getAll ''signal''
       (ContainerModule_kill_endpoint (plain_URL ''http://localhost:2375/v1'') (Some [])) = []
   \<and> getAll ''fromSrc''
       (ImageModule_create_endpoint (plain_URL ''http://localhost:2375/v1'') (Some []) None
        (Some []) (Some []) (Some []) None (Some [])) = [''-'']"
  using unset_arguments_not_sent
    [where e = "plain_URL ''http://localhost:2375/v1''" and all = "Some False" and filters = "None"
      and sharedSize = "Some False" and digests = "Some False" and dockerfile = "Some []"
      and tags = "None" and extraHosts = "Some []" and remote = "Some []"
      and quiet = "Some False" and noCache = "Some False" and cacheFrom = "Some []"
      and pull = "Some []" and removeIntermediate = "Some False"
      and forceRemoveIntermediate = "Some False" and memoryLimit = "Some 0"
      and memorySwap = "Some 0" and cpuShares = "Some 0" and cpuSetCpus = "Some []"
      and cpuPeriod = "Some 0" and cpuQuota = "Some 0" and buildArgs = "None"
      and shmSize = "Some 0" and squash = "Some False" and labels = "None"
      and networkMode = "Some []" and platform = "Some []" and target = "Some []"
      and outputs = "Some []" and keepStorage = "Some 0" and fromImage = "Some []"
      and repo = "Some []" and tag = "Some []" and message = "Some []" and changes = "None"
      and limit = "Some 0" and size' = "Some False" and name = "Some []"
      and psArgs = "Some []" and follow = "Some False" and stdout = "Some False"
      and stderr = "Some False" and since = "Some 0" and until = "Some 0"
      and timestamps = "Some False" and tail = "Some []" and timeout = "Some 0"
      and signal = "Some []" and fromSrc = "None"]
  by (simp add: plain_URL_def getAll_def)

text \<open>The claim as it is worded fails on \<open>ImageModule.create\<close>: with \<open>binary\<close> supplied
  and \<open>fromSrc\<close> left unset, the URL of the request carries \<open>fromSrc=-\<close>.\<close>

theorem unset_fromSrc_is_sent:
  "map req_url
     (issued (ImageModule_create (answering 200 ''{}'' :: (unit, unit, string) platform)
                ''http://localhost:2375'' (Some ''tar'') None None None None None None None None))
     = [''http://localhost:2375/images/create?fromSrc=-'']
   \<and> getAll ''fromSrc''
        (ImageModule_create_endpoint (plain_URL ''http://localhost:2375/images/create'')
           None None None None None None None) = [''-'']"
  by (simp add: ImageModule_create_def ImageModule_create_endpoint_def answering_def
        plain_URL_def toString_def post_def append_def Let_def append_string_def
        append_json_def urlencoded_serialize_def urlencoded_string_def urlencoded_byte_def
        urlencoded_safe_def getAll_def)

subsection \<open>Optional arguments supplied\<close>




subsection \<open>The state and action endpoints\<close>

text \<open>
  C8. When \<open>new URL\<close> leaves \<open>{url}/containers/abc123/start\<close> as it is and the daemon
  answers the request with a 2xx status, \<open>ContainerModule.start(url, "abc123")\<close> issues one
  POST to that URL with no body and resolves to \<open>undefined\<close>. More generally, each of
  \<open>start\<close>, \<open>stop\<close>, \<open>restart\<close>, \<open>kill\<close>, \<open>pause\<close> and \<open>rename\<close> issues one POST with no
  body to its endpoint and, whenever the daemon answers that request with a 2xx status,
  resolves to \<open>undefined\<close>, whatever the body of the response; \<open>rename\<close> carries the new
  name as the parameter \<open>name\<close>.
\<close>

theorem actions_resolve_undefined:
  assumes "200 \<le> st" and "st < 300"
  shows
   "(URL_new P (url @ ''/containers/abc123/start'')
        = Some (plain_URL (url @ ''/containers/abc123/start''))
      \<and> network P (post (url @ ''/containers/abc123/start'') NoBody []) = HttpResponse st b \<longrightarrow>
      ContainerModule_start P url ''abc123''
        = ([post (url @ ''/containers/abc123/start'') NoBody []], Resolved Undefined))
    \<and> (URL_new P (url @ ''/containers/'' @ id' @ ''/start'') = Some e_start
      \<and> network P (post (toString e_start) NoBody []) = HttpResponse st b \<longrightarrow>
      ContainerModule_start P url id'
        = ([post (toString e_start) NoBody []], Resolved Undefined))
    \<and> (URL_new P (url @ ''/containers/'' @ id' @ ''/stop'') = Some e_stop
      \<and> network P (post (toString (ContainerModule_stop_endpoint e_stop timeout)) NoBody [])
            = HttpResponse st b \<longrightarrow>
      ContainerModule_stop P url id' timeout
        = ([post (toString (ContainerModule_stop_endpoint e_stop timeout)) NoBody []],
           Resolved Undefined))
    \<and> (URL_new P (url @ ''/containers/'' @ id' @ ''/restart'') = Some e_restart
      \<and> network P (post (toString (ContainerModule_restart_endpoint e_restart timeout))
                      NoBody [])
            = HttpResponse st b \<longrightarrow>
      ContainerModule_restart P url id' timeout
        = ([post (toString (ContainerModule_restart_endpoint e_restart timeout)) NoBody []],
           Resolved Undefined))
    \<and> (URL_new P (url @ ''/containers/'' @ id' @ ''/kill'') = Some e_kill
      \<and> network P (post (toString (ContainerModule_kill_endpoint e_kill signal)) NoBody [])
            = HttpResponse st b \<longrightarrow>
      ContainerModule_kill P url id' signal
        = ([post (toString (ContainerModule_kill_endpoint e_kill signal)) NoBody []],
           Resolved Undefined))
    \<and> (URL_new P (url @ ''/containers/'' @ id' @ ''/pause'') = Some e_pause
      \<and> network P (post (toString e_pause) NoBody []) = HttpResponse st b \<longrightarrow>
      ContainerModule_pause P url id'
        = ([post (toString e_pause) NoBody []], Resolved Undefined))
    \<and> (URL_new P (url @ ''/containers/'' @ id' @ ''/rename'') = Some e_rename
      \<and> network P (post (toString (ContainerModule_rename_endpoint e_rename name)) NoBody [])
            = HttpResponse st b \<longrightarrow>
      ContainerModule_rename P url id' name
        = ([post (toString (ContainerModule_rename_endpoint e_rename name)) NoBody []],
           Resolved Undefined))
    \<and> searchParams (ContainerModule_rename_endpoint e_rename name)
        = searchParams e_rename @ [(''name'', name)]"
proof -
  have ok: "call P req then_undefined = ([req], Resolved Undefined)"
    if "network P req = HttpResponse st b" for req
    using that assms by (intro call_success) (simp add: success_def)
  show ?thesis
    by (auto simp: ContainerModule_start_def ContainerModule_stop_def ContainerModule_restart_def
          ContainerModule_kill_def ContainerModule_pause_def ContainerModule_rename_def
          ContainerModule_rename_endpoint_def ok plain_URL_def toString_def)
qed

theorem actions_resolve_undefined_witness:
  "ContainerModule_start (answering 204 [] :: (unit, unit, string) platform)
     ''http://localhost:2375'' ''abc123''
     = ([post ''http://localhost:2375/containers/abc123/start'' NoBody []], Resolved Undefined)
   \<and> ContainerModule_stop (answering 204 [] :: (unit, unit, string) platform)
        ''http://localhost:2375'' ''abc123'' (Some 5)
     = ([post ''http://localhost:2375/containers/abc123/stop?t=5'' NoBody []],
        Resolved Undefined)
   \<and> ContainerModule_restart (answering 204 [] :: (unit, unit, string) platform)
        ''http://localhost:2375'' ''abc123'' (Some 5)
     = ([post ''http://localhost:2375/containers/abc123/restart?t=5'' NoBody []],
        Resolved Undefined)
   \<and> ContainerModule_kill (answering 204 [] :: (unit, unit, string) platform)
        ''http://localhost:2375'' ''abc123'' (Some ''SIGKILL'')
     = ([post ''http://localhost:2375/containers/abc123/kill?signal=SIGKILL'' NoBody []],
        Resolved Undefined)
   \<and> ContainerModule_pause (answering 204 [] :: (unit, unit, string) platform)
        ''http://localhost:2375'' ''abc123''
     = ([post ''http://localhost:2375/containers/abc123/pause'' NoBody []], Resolved Undefined)
   \<and> ContainerModule_rename (answering 204 [] :: (unit, unit, string) platform)
        ''http://localhost:2375'' ''abc123'' ''web''
     = ([post ''http://localhost:2375/containers/abc123/rename?name=web'' NoBody []],
        Resolved Undefined)"
proof -
  have stop: "toString (ContainerModule_stop_endpoint
                 (plain_URL ''http://localhost:2375/containers/abc123/stop'') (Some 5))
               = ''http://localhost:2375/containers/abc123/stop?t=5''"
    by (simp add: ContainerModule_stop_endpoint_def plain_URL_def toString_def append_number_def
          append_def Let_def toString_n_5
          urlencoded_serialize_def urlencoded_string_def urlencoded_byte_def urlencoded_safe_def)
  have restart: "toString (ContainerModule_restart_endpoint
                 (plain_URL ''http://localhost:2375/containers/abc123/restart'') (Some 5))
               = ''http://localhost:2375/containers/abc123/restart?t=5''"
    by (simp add: ContainerModule_restart_endpoint_def plain_URL_def toString_def
          append_number_def append_def Let_def toString_n_5
          urlencoded_serialize_def urlencoded_string_def urlencoded_byte_def urlencoded_safe_def)
  have kill: "toString (ContainerModule_kill_endpoint
                 (plain_URL ''http://localhost:2375/containers/abc123/kill'') (Some ''SIGKILL''))
               = ''http://localhost:2375/containers/abc123/kill?signal=SIGKILL''"
    by (simp add: ContainerModule_kill_endpoint_def plain_URL_def toString_def append_string_def
          append_def Let_def urlencoded_serialize_def urlencoded_string_def urlencoded_byte_def
          urlencoded_safe_def)
  have rename: "toString (ContainerModule_rename_endpoint
                 (plain_URL ''http://localhost:2375/containers/abc123/rename'') ''web'')
               = ''http://localhost:2375/containers/abc123/rename?name=web''"
    by (simp add: ContainerModule_rename_endpoint_def plain_URL_def toString_def
          append_def Let_def urlencoded_serialize_def urlencoded_string_def urlencoded_byte_def
          urlencoded_safe_def)
  show ?thesis
    using actions_resolve_undefined
      [where st = 204 and b = "[]"
         and P = "answering 204 [] :: (unit, unit, string) platform"
         and url = "''http://localhost:2375''" and id' = "''abc123''"
         and timeout = "Some 5" and signal = "Some ''SIGKILL''" and name = "''web''"
         and e_start = "plain_URL ''http://localhost:2375/containers/abc123/start''"
         and e_stop = "plain_URL ''http://localhost:2375/containers/abc123/stop''"
         and e_restart = "plain_URL ''http://localhost:2375/containers/abc123/restart''"
         and e_kill = "plain_URL ''http://localhost:2375/containers/abc123/kill''"
         and e_pause = "plain_URL ''http://localhost:2375/containers/abc123/pause''"
         and e_rename = "plain_URL ''http://localhost:2375/containers/abc123/rename''"]
    by (simp add: answering_def stop restart kill rename)
       (simp add: plain_URL_def toString_def)
qed

subsection \<open>Error responses of the daemon\<close>

text \<open>
  What every operation does with a response outside 2xx: it rejects with the \<open>data\<close> of
  the response, which is the decoded body where the request has the default response
  type and the unread stream where it asked for \<open>responseType: 'stream'\<close>.
\<close>

lemma call_error_response:
  assumes "network P req = HttpResponse st b" and "\<not> (200 \<le> st \<and> st < 300)"
  shows "outcome (call P req f)
           = Rejected (case req_responseType req of
                         DefaultType \<Rightarrow> Data b | StreamType \<Rightarrow> Stream b)"
  using assms by (simp add: call_def settle_def axios_def catch_throw_def Let_def)

text \<open>
  C2. At a 404 response with the body \<open>{"message": "no such container"}\<close>:
  \<open>ContainerModule.logs\<close> and \<open>ContainerModule.backup\<close>, the two operations that ask for a
  stream, reject with the stream over the body, not with the body object;
  \<open>ContainerModule.changes\<close>, like every operation with the default response type,
  rejects with the body object itself.
\<close>

theorem stream_operations_reject_with_stream:
  "outcome (ContainerModule_logs
              (answering 404 [(''message'', ''no such container'')]
                 :: (unit, unit, string_map) platform)
              ''http://localhost:2375'' ''abc123'' None None None None None None None)
     = Rejected (Stream [(''message'', ''no such container'')])
   \<and> outcome (ContainerModule_backup
              (answering 404 [(''message'', ''no such container'')]
                 :: (unit, unit, string_map) platform)
              ''http://localhost:2375'' ''abc123'')
     = Rejected (Stream [(''message'', ''no such container'')])
   \<and> outcome (ContainerModule_changes
              (answering 404 [(''message'', ''no such container'')]
                 :: (unit, unit, string_map) platform)
              ''http://localhost:2375'' ''abc123'')
     = Rejected (Data [(''message'', ''no such container'')])"
  by (simp add: ContainerModule_logs_def ContainerModule_backup_def ContainerModule_changes_def
        answering_def call_def settle_def axios_def catch_throw_def get_stream_def get_def)

subsection \<open>Transport errors\<close>

text \<open>
  What every operation does when the client's error carries no response: the handler
  \<open>x => { throw x.response.data }\<close> reads \<open>data\<close> of \<open>undefined\<close>, and the operation rejects
  with the \<open>TypeError\<close> of that read, whatever the transport's error was.
\<close>

lemma call_no_response:
  assumes "network P req = NoResponse c"
  shows "outcome (call P req f) = Rejected (TypeError ''Cannot read properties of undefined'')"
  using assms by (simp add: call_def settle_def axios_def catch_throw_def)

text \<open>
  C9. With the daemon unreachable (the client fails with \<open>ECONNREFUSED\<close> or \<open>ETIMEDOUT\<close> and
  no response), \<open>ContainerModule.list\<close>, \<open>ContainerModule.logs\<close> and \<open>ImageModule.list\<close>
  reject with the same \<open>TypeError\<close>, raised in their own \<open>catch\<close> handler: the error the
  transport layer produced, and its code, are lost.
\<close>

theorem transport_error_is_masked:
  "outcome (ContainerModule_list
              (unreachable ''ECONNREFUSED'' :: (unit, unit, string_map) platform)
              ''http://localhost:2375'' None None None None)
     = Rejected (TypeError ''Cannot read properties of undefined'')
   \<and> outcome (ContainerModule_logs
              (unreachable ''ETIMEDOUT'' :: (unit, unit, string_map) platform)
              ''http://localhost:2375'' ''abc123'' None None None None None None None)
     = Rejected (TypeError ''Cannot read properties of undefined'')
   \<and> outcome (ImageModule_list
              (unreachable ''ECONNREFUSED'' :: (unit, unit, string_map) platform)
              ''http://localhost:2375'' None None None None)
     = Rejected (TypeError ''Cannot read properties of undefined'')"
  by (simp add: ContainerModule_list_def ContainerModule_logs_def ImageModule_list_def
        unreachable_def call_def settle_def axios_def catch_throw_def)

subsection \<open>Image build\<close>

text \<open>
  C7. \<open>ImageModule.build\<close> on a gzip-compressed archive, whose first bytes are
  \<open>1F 8B 08 00\<close>, with the daemon answering 200 and a body: the body of the POST is the
  string \<open>binary.toString()\<close>, in which the byte \<open>8B\<close> has become U+FFFD (six bytes on the
  wire, under a \<open>Content-Length\<close> of four), and the operation resolves with the body of the
  response, not with \<open>undefined\<close>.
\<close>

theorem build_sends_decoded_text_and_returns_data:
  "ImageModule_build (answering 200 ''Successfully built'' :: (unit, unit, string) platform)
     ''http://localhost:2375'' [CHR 0x1F, CHR 0x8B, CHR 0x08, CHR 0x00] None None None None
     None None None None None None None None None None None
     None None None None None None None None None None None
   = ([post ''http://localhost:2375/build''
         (StringBody [CHR 0x1F, CHR 0xEF, CHR 0xBF, CHR 0xBD, CHR 0x08, CHR 0x00])
         [(''Content-Type'', HeaderString ''application/x-tar''),
          (''Content-Length'', HeaderNumber 4),
          (''X-Registry-Config'', HeaderUndefined)]],
      Resolved (Data ''Successfully built''))"
  by (simp add: ImageModule_build_def ImageModule_build_endpoint_def ImageModule_build_headers_def
        answering_def plain_URL_def toString_def call_def settle_def axios_def then_data_def
        post_def append_string_def append_bool_def append_number_def append_json_def
        append_each_def Buffer_toString_def replacement_def)

end
